theory Spec2Isabelle
  imports Main "HOL-Library.Word"
begin

section \<open>Message envelope of packages/messaging/src/Message.ts\<close>

subsection \<open>Bytes, strings and errors\<close>

text \<open>
  A \<open>Uint8Array\<close> is a list of bytes. A JavaScript string is a sequence of UTF-16 code
  units. Every \<open>throw new Error(msg)\<close> of the source is the value \<open>Error msg\<close>; a
  collaborator that throws returns such a value as well.
\<close>

type_synonym byte = "8 word"
type_synonym bytes = "byte list"
type_synonym jsstring = "16 word list"

datatype error = Error string

subsection \<open>The platform's text codec\<close>

text \<open>
  \<open>new TextEncoder().encode(s)\<close> first reads the code units of \<open>s\<close> as scalar values, a
  surrogate without its partner becoming U+FFFD, and then writes each scalar value in
  UTF-8.
\<close>

definition is_lead :: "16 word \<Rightarrow> bool" where
  "is_lead c = (0xD800 \<le> unat c \<and> unat c \<le> 0xDBFF)"

definition is_trail :: "16 word \<Rightarrow> bool" where
  "is_trail c = (0xDC00 \<le> unat c \<and> unat c \<le> 0xDFFF)"

fun to_scalar_values :: "jsstring \<Rightarrow> nat list" where
  "to_scalar_values [] = []"
| "to_scalar_values [c] = (if is_lead c \<or> is_trail c then [0xFFFD] else [unat c])"
| "to_scalar_values (c # d # cs) =
     (if is_lead c \<and> is_trail d
      then (0x10000 + (unat c - 0xD800) * 0x400 + (unat d - 0xDC00)) # to_scalar_values cs
      else (if is_lead c \<or> is_trail c then 0xFFFD else unat c) # to_scalar_values (d # cs))"

definition utf8_encode_scalar :: "nat \<Rightarrow> bytes" where
  "utf8_encode_scalar cp =
     (if cp < 0x80 then [of_nat cp]
      else if cp < 0x800 then [of_nat (0xC0 + cp div 0x40), of_nat (0x80 + cp mod 0x40)]
      else if cp < 0x10000 then
        [of_nat (0xE0 + cp div 0x1000), of_nat (0x80 + (cp div 0x40) mod 0x40),
         of_nat (0x80 + cp mod 0x40)]
      else
        [of_nat (0xF0 + cp div 0x40000), of_nat (0x80 + (cp div 0x1000) mod 0x40),
         of_nat (0x80 + (cp div 0x40) mod 0x40), of_nat (0x80 + cp mod 0x40)])"

definition TextEncoder_encode :: "jsstring \<Rightarrow> bytes" where
  "TextEncoder_encode s = concat (map utf8_encode_scalar (to_scalar_values s))"

text \<open>
  \<open>new TextDecoder().decode(bytes)\<close> runs the UTF-8 decoder with replacement: the state
  is the code point under construction, the number of continuation bytes needed and seen,
  and the bounds of the next continuation byte. A byte that cannot continue a sequence
  yields U+FFFD and is read again as the start of a sequence. The decoder is created
  with its defaults, so a byte order mark at the start of the output is dropped.
\<close>

function utf8_decode :: "nat \<Rightarrow> nat \<Rightarrow> nat \<Rightarrow> nat \<Rightarrow> nat \<Rightarrow> bytes \<Rightarrow> nat list" where
  "utf8_decode cp needed seen lo hi [] = (if needed \<noteq> 0 then [0xFFFD] else [])"
| "utf8_decode cp needed seen lo hi (b # bs) =
     (if needed = 0 then
        (if unat b \<le> 0x7F then unat b # utf8_decode 0 0 0 0x80 0xBF bs
         else if 0xC2 \<le> unat b \<and> unat b \<le> 0xDF then
           utf8_decode (unat b mod 0x20) 1 0 0x80 0xBF bs
         else if 0xE0 \<le> unat b \<and> unat b \<le> 0xEF then
           utf8_decode (unat b mod 0x10) 2 0
             (if unat b = 0xE0 then 0xA0 else 0x80) (if unat b = 0xED then 0x9F else 0xBF) bs
         else if 0xF0 \<le> unat b \<and> unat b \<le> 0xF4 then
           utf8_decode (unat b mod 0x8) 3 0
             (if unat b = 0xF0 then 0x90 else 0x80) (if unat b = 0xF4 then 0x8F else 0xBF) bs
         else 0xFFFD # utf8_decode 0 0 0 0x80 0xBF bs)
      else if unat b < lo \<or> hi < unat b then 0xFFFD # utf8_decode 0 0 0 0x80 0xBF (b # bs)
      else if Suc seen \<noteq> needed then
        utf8_decode (cp * 0x40 + unat b mod 0x40) needed (Suc seen) 0x80 0xBF bs
      else (cp * 0x40 + unat b mod 0x40) # utf8_decode 0 0 0 0x80 0xBF bs)"
  by pat_completeness auto
termination
  by (relation "measure (\<lambda>(cp, needed, seen, lo, hi, bs).
        2 * length bs + (if needed = 0 then 0 else 1))") auto

fun strip_bom :: "nat list \<Rightarrow> nat list" where
  "strip_bom [] = []"
| "strip_bom (cp # cps) = (if cp = 0xFEFF then cps else cp # cps)"

definition utf16_units :: "nat \<Rightarrow> jsstring" where
  "utf16_units cp =
     (if cp < 0x10000 then [of_nat cp]
      else [of_nat (0xD800 + (cp - 0x10000) div 0x400),
            of_nat (0xDC00 + (cp - 0x10000) mod 0x400)])"

definition TextDecoder_decode :: "bytes \<Rightarrow> jsstring" where
  "TextDecoder_decode bs =
     concat (map utf16_units (strip_bom (utf8_decode 0 0 0 0x80 0xBF bs)))"

text \<open>
  The strings that the codec can carry: a string is well formed when every surrogate code
  unit is part of a pair, a lead followed by a trail; the scalar values are the code
  points outside the surrogate range.
\<close>

definition scalar :: "nat \<Rightarrow> bool" where
  "scalar cp = (cp < 0xD800 \<or> (0xE000 \<le> cp \<and> cp < 0x110000))"

fun well_formed :: "jsstring \<Rightarrow> bool" where
  "well_formed [] = True"
| "well_formed [c] = (\<not> is_lead c \<and> \<not> is_trail c)"
| "well_formed (c # d # cs) =
     (if is_lead c then is_trail d \<and> well_formed cs
      else \<not> is_trail c \<and> well_formed (d # cs))"

fun no_bom :: "jsstring \<Rightarrow> bool" where
  "no_bom [] = True"
| "no_bom (c # cs) = (c \<noteq> 0xFEFF)"

subsection \<open>Wire structures and classes\<close>

text \<open>
  Modelled from the spec: the declarations of \<open>proto/message\<close> and of the classes of
  \<open>crypto\<close> are not part of this file of the repository. The records have the fields
  that \<open>Message.ts\<close> reads, and the identity key that the spec's data model gives a key
  bundle: a key bundle with an optional identity key and an optional pre-key, a header
  with an optional sender and an optional recipient, a ciphertext with an optional
  \<open>aes256GcmHkdfSha256\<close> payload, and a message with an optional header and an
  optional ciphertext. A field that is \<open>undefined\<close> is \<open>None\<close>; a field that holds
  an object is truthy, so \<open>!field\<close> tests for \<open>None\<close>. The classes \<open>KeyBundle\<close>,
  \<open>Header\<close> and \<open>Ciphertext\<close> implement the wire interfaces and carry the same
  fields, so each shares the record of its wire structure. (The class \<open>Header\<close> also
  declares a field \<open>decrypted\<close>, which nothing assigns or reads; it is left out.) The
  class \<open>Message\<close> extends the wire message by the field \<open>decrypted\<close>. Public keys
  \<open>'pk\<close>, private keys \<open>'sk\<close>, secrets \<open>'sec\<close> and AEAD payloads \<open>'ct\<close> are
  opaque.
\<close>

record 'pk KeyBundle =
  identityKey :: "'pk option"
  preKey :: "'pk option"

record 'pk Message_Header =
  sender :: "'pk KeyBundle option"
  recipient :: "'pk KeyBundle option"

type_synonym 'pk Header = "'pk Message_Header"

record 'ct Ciphertext =
  aes256GcmHkdfSha256 :: "'ct option"

record ('pk, 'ct) proto_Message =
  header :: "'pk Message_Header option"
  ciphertext :: "'ct Ciphertext option"

record ('pk, 'ct) Message = "('pk, 'ct) proto_Message" +
  decrypted :: "jsstring option"

text \<open>
  Of a \<open>PrivateKeyBundle\<close> the source reads the current pre-key \<open>preKey\<close> (here
  \<open>privPreKey\<close>, the name \<open>preKey\<close> being the key bundle's) and the stored pre-keys
  \<open>preKeys\<close>; the private identity key stands for the rest of it.
\<close>

record 'sk PrivateKeyBundle =
  privIdentityKey :: "'sk option"
  privPreKey :: "'sk option"
  preKeys :: "'sk list"

subsection \<open>External collaborators\<close>

text \<open>
  Modelled from the spec: the wire codec of \<open>proto/message\<close>, the constructors and
  methods of the classes of \<open>crypto\<close>, and \<open>encrypt\<close> and \<open>decrypt\<close> of
  \<open>crypto/encryption\<close> are not part of this file of the repository. They are
  parameters, with the signatures of the external interfaces: the constructors
  \<open>new KeyBundle\<close>, \<open>new PublicKey\<close> and \<open>new Ciphertext\<close>, the codec's \<open>encode\<close>,
  \<open>getKeyBundle\<close> and \<open>matches\<close> return a value; the codec's \<open>decode\<close>,
  \<open>sharedSecret\<close>, \<open>encrypt\<close> and \<open>decrypt\<close> may throw. The functions stand for what
  the collaborators return during one run of \<open>encode\<close> or \<open>decode\<close>.
\<close>

record ('pk, 'sk, 'sec, 'ct) ext =
  proto_Message_Header_encode :: "'pk Message_Header \<Rightarrow> bytes"
  proto_Message_Header_decode :: "bytes \<Rightarrow> error + 'pk Message_Header"
  proto_Message_encode :: "('pk, 'ct) proto_Message \<Rightarrow> bytes"
  proto_Message_decode :: "bytes \<Rightarrow> error + ('pk, 'ct) proto_Message"
  KeyBundle_new :: "'pk KeyBundle \<Rightarrow> 'pk KeyBundle"
  PublicKey_new :: "'pk \<Rightarrow> 'pk"
  Ciphertext_new :: "'ct Ciphertext \<Rightarrow> 'ct Ciphertext"
  getKeyBundle :: "'sk PrivateKeyBundle \<Rightarrow> 'pk KeyBundle"
  sharedSecret :: "'sk PrivateKeyBundle \<Rightarrow> 'pk KeyBundle \<Rightarrow> bool \<Rightarrow> error + 'sec"
  matches :: "'sk \<Rightarrow> 'pk \<Rightarrow> bool"
  encrypt :: "bytes \<Rightarrow> 'sec \<Rightarrow> bytes \<Rightarrow> error + 'ct Ciphertext"
  decrypt :: "'ct Ciphertext \<Rightarrow> 'sec \<Rightarrow> bytes \<Rightarrow> error + bytes"

subsection \<open>Asynchronous calls and their log\<close>

text \<open>
  The \<open>async\<close> methods await three primitives: the shared-secret derivation and the
  AEAD \<open>encrypt\<close> and \<open>decrypt\<close>. A computation returns the log of the primitives it
  invoked, each with its arguments, in order, together with its outcome: \<open>Inl\<close> the
  error thrown, \<open>Inr\<close> the value returned.
\<close>

datatype ('pk, 'sk, 'sec, 'ct) call =
    is_SharedSecret: SharedSecret (self: "'sk PrivateKeyBundle") (peer: "'pk KeyBundle")
      (isRecipient: bool)
  | is_Encrypt: Encrypt (plain: bytes) (secret: 'sec) (ad: bytes)
  | is_Decrypt: Decrypt (encrypted: "'ct Ciphertext") (secret: 'sec) (ad: bytes)

type_synonym ('c, 'a) io = "'c list \<times> (error + 'a)"

definition io_return :: "'a \<Rightarrow> ('c, 'a) io" where
  "io_return x = ([], Inr x)"

definition io_throw :: "error \<Rightarrow> ('c, 'a) io" where
  "io_throw e = ([], Inl e)"

definition io_await :: "'c \<Rightarrow> error + 'a \<Rightarrow> ('c, 'a) io" where
  "io_await c r = ([c], r)"

definition io_bind :: "('c, 'a) io \<Rightarrow> ('a \<Rightarrow> ('c, 'b) io) \<Rightarrow> ('c, 'b) io" where
  "io_bind m f =
     (case snd m of
        Inl e \<Rightarrow> (fst m, Inl e)
      | Inr x \<Rightarrow> (fst m @ fst (f x), snd (f x)))"

subsection \<open>Header\<close>

text \<open>
  The class \<open>Header\<close> (lines 6 to 27): the constructor builds a \<open>KeyBundle\<close> from each
  field that is present; \<open>toBytes\<close> is the wire encoding; \<open>fromBytes\<close> constructs a
  header from the decoded wire header, or throws what the codec throws.
\<close>

definition Header_new :: "('pk, 'sk, 'sec, 'ct) ext \<Rightarrow> 'pk Message_Header \<Rightarrow> 'pk Header" where
  "Header_new x obj =
     \<lparr>sender = map_option (KeyBundle_new x) (sender obj),
      recipient = map_option (KeyBundle_new x) (recipient obj)\<rparr>"

definition Header_toBytes :: "('pk, 'sk, 'sec, 'ct) ext \<Rightarrow> 'pk Header \<Rightarrow> bytes" where
  "Header_toBytes x h = proto_Message_Header_encode x h"

definition Header_fromBytes :: "('pk, 'sk, 'sec, 'ct) ext \<Rightarrow> bytes \<Rightarrow> error + 'pk Header" where
  "Header_fromBytes x bs =
     (case proto_Message_Header_decode x bs of
        Inl e \<Rightarrow> Inl e
      | Inr obj \<Rightarrow> Inr (Header_new x obj))"

subsection \<open>Associated data\<close>

text \<open>
  \<open>associatedData\<close> (lines 140 to 152): the wire encoding of the header made of the two
  key bundles. The argument type \<open>AssociatedData\<close> has both key bundles present; its
  fields \<open>sender\<close> and \<open>recipient\<close> are \<open>ad_sender\<close> and \<open>ad_recipient\<close> here, the
  plain names being the header's.
\<close>

record 'pk AssociatedData =
  ad_sender :: "'pk KeyBundle"
  ad_recipient :: "'pk KeyBundle"

definition associatedData :: "('pk, 'sk, 'sec, 'ct) ext \<Rightarrow> 'pk AssociatedData \<Rightarrow> bytes" where
  "associatedData x hdr =
     proto_Message_Header_encode x
       \<lparr>sender = Some (ad_sender hdr), recipient = Some (ad_recipient hdr)\<rparr>"

subsection \<open>Message\<close>

text \<open>
  The class \<open>Message\<close> (lines 29 to 138). The constructor builds a \<open>Header\<close> and a
  \<open>Ciphertext\<close> from the fields that are present and leaves \<open>decrypted\<close> undefined;
  \<open>toBytes\<close> encodes the header and the ciphertext, the wire message having no other
  field.
\<close>

definition Message_new ::
  "('pk, 'sk, 'sec, 'ct) ext \<Rightarrow> ('pk, 'ct) proto_Message \<Rightarrow> ('pk, 'ct) Message" where
  "Message_new x obj =
     \<lparr>header = map_option (Header_new x) (header obj),
      ciphertext = map_option (Ciphertext_new x) (ciphertext obj),
      decrypted = None\<rparr>"

definition Message_toBytes :: "('pk, 'sk, 'sec, 'ct) ext \<Rightarrow> ('pk, 'ct) Message \<Rightarrow> bytes" where
  "Message_toBytes x m =
     proto_Message_encode x \<lparr>header = header m, ciphertext = ciphertext m\<rparr>"

definition Message_fromBytes ::
  "('pk, 'sk, 'sec, 'ct) ext \<Rightarrow> bytes \<Rightarrow> error + ('pk, 'ct) Message" where
  "Message_fromBytes x bs =
     (case proto_Message_decode x bs of
        Inl e \<Rightarrow> Inl e
      | Inr obj \<Rightarrow> Inr (Message_new x obj))"

text \<open>
  \<open>Message.encrypt\<close> (lines 112 to 123) and \<open>Message.decrypt\<close> (lines 126 to 137):
  derive the secret, build the associated data, call the AEAD primitive. An error of the
  derivation ends the computation before the primitive is called.
\<close>

definition Message_encrypt ::
  "('pk, 'sk, 'sec, 'ct) ext \<Rightarrow> bytes \<Rightarrow> 'sk PrivateKeyBundle \<Rightarrow> 'pk KeyBundle \<Rightarrow>
   (('pk, 'sk, 'sec, 'ct) call, 'ct Ciphertext) io" where
  "Message_encrypt x pl sndr rcpt =
     io_bind (io_await (SharedSecret sndr rcpt False) (sharedSecret x sndr rcpt False))
       (\<lambda>sec.
          let a = associatedData x \<lparr>ad_sender = getKeyBundle x sndr, ad_recipient = rcpt\<rparr>
          in io_await (Encrypt pl sec a) (encrypt x pl sec a))"

definition Message_decrypt ::
  "('pk, 'sk, 'sec, 'ct) ext \<Rightarrow> 'ct Ciphertext \<Rightarrow> 'pk KeyBundle \<Rightarrow> 'sk PrivateKeyBundle \<Rightarrow>
   (('pk, 'sk, 'sec, 'ct) call, bytes) io" where
  "Message_decrypt x enc sndr rcpt =
     io_bind (io_await (SharedSecret rcpt sndr True) (sharedSecret x rcpt sndr True))
       (\<lambda>sec.
          let a = associatedData x \<lparr>ad_sender = sndr, ad_recipient = getKeyBundle x rcpt\<rparr>
          in io_await (Decrypt enc sec a) (decrypt x enc sec a))"

text \<open>
  \<open>Message.encode\<close> (lines 52 to 68): encode the text, encrypt, construct the message
  and set \<open>decrypted\<close> to the plaintext.
\<close>

definition Message_encode ::
  "('pk, 'sk, 'sec, 'ct) ext \<Rightarrow> 'sk PrivateKeyBundle \<Rightarrow> 'pk KeyBundle \<Rightarrow> jsstring \<Rightarrow>
   (('pk, 'sk, 'sec, 'ct) call, ('pk, 'ct) Message) io" where
  "Message_encode x sndr rcpt message =
     (let bs = TextEncoder_encode message in
      io_bind (Message_encrypt x bs sndr rcpt)
        (\<lambda>ct.
           let msg = Message_new x
                 \<lparr>header = Some \<lparr>sender = Some (getKeyBundle x sndr), recipient = Some rcpt\<rparr>,
                  ciphertext = Some ct\<rparr>
           in io_return (msg\<lparr>decrypted := Some message\<rparr>)))"

text \<open>
  \<open>Message.decode\<close> (lines 72 to 109): decode the wire message, then the checks in the
  order of the source, each with the error it throws; then construct the ciphertext,
  decrypt, construct the message and set \<open>decrypted\<close> to the decoded text. The local
  names \<open>rcpt\<close>, \<open>sndr\<close> and \<open>ct\<close> are the source's \<open>recipient\<close>, \<open>sender\<close> and
  \<open>ciphertext\<close>, which here name the fields.
\<close>

definition Message_decode ::
  "('pk, 'sk, 'sec, 'ct) ext \<Rightarrow> 'sk PrivateKeyBundle \<Rightarrow> bytes \<Rightarrow>
   (('pk, 'sk, 'sec, 'ct) call, ('pk, 'ct) Message) io" where
  "Message_decode x rcpt bs =
     (case proto_Message_decode x bs of
        Inl e \<Rightarrow> io_throw e
      | Inr message \<Rightarrow>
     (case header message of
        None \<Rightarrow> io_throw (Error ''missing message header'')
      | Some hdr \<Rightarrow>
     (case sender hdr of
        None \<Rightarrow> io_throw (Error ''missing message sender'')
      | Some hsender \<Rightarrow>
     (case recipient hdr of
        None \<Rightarrow> io_throw (Error ''missing message recipient'')
      | Some hrecipient \<Rightarrow>
     (case preKey hrecipient of
        None \<Rightarrow> io_throw (Error ''missing message recipient pre key'')
      | Some hpreKey \<Rightarrow>
     (let sndr = KeyBundle_new x hsender in
     (case privPreKey rcpt of
        None \<Rightarrow> io_throw (Error ''missing message recipient pre key'')
      | Some rpreKey \<Rightarrow>
      if preKeys rcpt = [] then io_throw (Error ''missing pre key'')
      else if \<not> matches x rpreKey (PublicKey_new x hpreKey)
      then io_throw (Error ''recipient pre-key mismatch'')
      else
     (case ciphertext message of
        None \<Rightarrow> io_throw (Error ''missing message ciphertext'')
      | Some wct \<Rightarrow>
     (case aes256GcmHkdfSha256 wct of
        None \<Rightarrow> io_throw (Error ''missing message ciphertext'')
      | Some payload \<Rightarrow>
     (let ct = Ciphertext_new x wct in
      io_bind (Message_decrypt x ct sndr rcpt)
        (\<lambda>bs'.
           let msg = Message_new x message
           in io_return (msg\<lparr>decrypted := Some (TextDecoder_decode bs')\<rparr>))))))))))))"

subsection \<open>The validation checks of decode, in order\<close>

text \<open>
  The checks that \<open>Message.decode\<close> makes before it decrypts, named after what each
  requires, with the condition under which each fails and the error the source throws
  for it. \<open>first_failed\<close> is the first check of the pipeline that an input fails.
\<close>

datatype check =
    Header_present
  | Sender_present
  | Recipient_present
  | Recipient_preKey_present
  | Current_preKey_present
  | PreKeys_nonempty
  | PreKey_matches
  | Ciphertext_payload_present

definition pipeline :: "check list" where
  "pipeline =
     [Header_present, Sender_present, Recipient_present, Recipient_preKey_present,
      Current_preKey_present, PreKeys_nonempty, PreKey_matches, Ciphertext_payload_present]"

fun check_error :: "check \<Rightarrow> error" where
  "check_error Header_present = Error ''missing message header''"
| "check_error Sender_present = Error ''missing message sender''"
| "check_error Recipient_present = Error ''missing message recipient''"
| "check_error Recipient_preKey_present = Error ''missing message recipient pre key''"
| "check_error Current_preKey_present = Error ''missing message recipient pre key''"
| "check_error PreKeys_nonempty = Error ''missing pre key''"
| "check_error PreKey_matches = Error ''recipient pre-key mismatch''"
| "check_error Ciphertext_payload_present = Error ''missing message ciphertext''"

definition wire_recipient_preKey :: "('pk, 'ct) proto_Message \<Rightarrow> 'pk option" where
  "wire_recipient_preKey m = Option.bind (Option.bind (header m) recipient) preKey"

fun fails ::
  "('pk, 'sk, 'sec, 'ct) ext \<Rightarrow> 'sk PrivateKeyBundle \<Rightarrow> ('pk, 'ct) proto_Message \<Rightarrow> check \<Rightarrow> bool"
  where
  "fails x rcpt m Header_present = (header m = None)"
| "fails x rcpt m Sender_present = (Option.bind (header m) sender = None)"
| "fails x rcpt m Recipient_present = (Option.bind (header m) recipient = None)"
| "fails x rcpt m Recipient_preKey_present = (wire_recipient_preKey m = None)"
| "fails x rcpt m Current_preKey_present = (privPreKey rcpt = None)"
| "fails x rcpt m PreKeys_nonempty = (preKeys rcpt = [])"
| "fails x rcpt m PreKey_matches =
     (case (privPreKey rcpt, wire_recipient_preKey m) of
        (Some rpk, Some hpk) \<Rightarrow> \<not> matches x rpk (PublicKey_new x hpk)
      | _ \<Rightarrow> True)"
| "fails x rcpt m Ciphertext_payload_present =
     (Option.bind (ciphertext m) aes256GcmHkdfSha256 = None)"

definition first_failed ::
  "('pk, 'sk, 'sec, 'ct) ext \<Rightarrow> 'sk PrivateKeyBundle \<Rightarrow> ('pk, 'ct) proto_Message \<Rightarrow> check option"
  where
  "first_failed x rcpt m = find (fails x rcpt m) pipeline"

subsection \<open>A concrete instance of the collaborators\<close>

text \<open>
  An instance on which the functions above can be run. Keys are numbers, the public
  key of a private key being the same number; the secret lists the sender's and the
  recipient's keys in that order, whichever side derives it; the AEAD payload records
  the secret, the associated data and the plaintext, and decrypts only under the same
  secret and associated data. The codec serializes the headers and messages of a small
  table.
\<close>

type_synonym toy_payload = "nat list \<times> bytes \<times> bytes"

definition toy_sender :: "nat PrivateKeyBundle" where
  "toy_sender = \<lparr>privIdentityKey = Some 2, privPreKey = Some 3, preKeys = [3]\<rparr>"

definition toy_recipient :: "nat PrivateKeyBundle" where
  "toy_recipient = \<lparr>privIdentityKey = Some 5, privPreKey = Some 7, preKeys = [7]\<rparr>"

definition toy_getKeyBundle :: "nat PrivateKeyBundle \<Rightarrow> nat KeyBundle" where
  "toy_getKeyBundle p = \<lparr>identityKey = privIdentityKey p, preKey = privPreKey p\<rparr>"

definition toy_sharedSecret ::
  "nat PrivateKeyBundle \<Rightarrow> nat KeyBundle \<Rightarrow> bool \<Rightarrow> error + nat list" where
  "toy_sharedSecret p k isRecipientSide =
     (case (privIdentityKey p, privPreKey p, identityKey k, preKey k) of
        (Some a, Some b, Some c, Some d) \<Rightarrow>
          Inr (if isRecipientSide then [c, d, a, b] else [a, b, c, d])
      | _ \<Rightarrow> Inl (Error ''missing key''))"

definition toy_encrypt :: "bytes \<Rightarrow> nat list \<Rightarrow> bytes \<Rightarrow> error + toy_payload Ciphertext" where
  "toy_encrypt pl sec a = Inr \<lparr>aes256GcmHkdfSha256 = Some (sec, a, pl)\<rparr>"

definition toy_decrypt :: "toy_payload Ciphertext \<Rightarrow> nat list \<Rightarrow> bytes \<Rightarrow> error + bytes" where
  "toy_decrypt c sec a =
     (case aes256GcmHkdfSha256 c of
        None \<Rightarrow> Inl (Error ''missing payload'')
      | Some (sec', a', pl) \<Rightarrow>
          if sec' = sec \<and> a' = a then Inr pl else Inl (Error ''authentication failed''))"

definition toy_header :: "nat Message_Header" where
  "toy_header =
     \<lparr>sender = Some (toy_getKeyBundle toy_sender),
      recipient = Some (toy_getKeyBundle toy_recipient)\<rparr>"

definition toy_header_swapped :: "nat Message_Header" where
  "toy_header_swapped =
     \<lparr>sender = Some (toy_getKeyBundle toy_recipient),
      recipient = Some (toy_getKeyBundle toy_sender)\<rparr>"

definition toy_Header_encode :: "nat Message_Header \<Rightarrow> bytes" where
  "toy_Header_encode h =
     (if h = toy_header then [1] else if h = toy_header_swapped then [2] else [0])"

definition toy_Header_decode :: "bytes \<Rightarrow> error + nat Message_Header" where
  "toy_Header_decode bs =
     (if bs = [1] then Inr toy_header
      else if bs = [2] then Inr toy_header_swapped
      else Inl (Error ''invalid wire type''))"

definition toy_ciphertext :: "bytes \<Rightarrow> toy_payload Ciphertext" where
  "toy_ciphertext pl = \<lparr>aes256GcmHkdfSha256 = Some ([2, 3, 5, 7], [1], pl)\<rparr>"

definition toy_wire :: "(byte \<times> (nat, toy_payload) proto_Message) list" where
  "toy_wire =
     [(1, \<lparr>header = Some toy_header, ciphertext = Some (toy_ciphertext [0x68, 0x69])\<rparr>),
      (2, \<lparr>header = Some toy_header,
           ciphertext = Some (toy_ciphertext [0xEF, 0xBB, 0xBF, 0x68])\<rparr>),
      (3, \<lparr>header = None, ciphertext = Some (toy_ciphertext [0x68, 0x69])\<rparr>),
      (4, \<lparr>header = Some (toy_header\<lparr>sender := None\<rparr>),
           ciphertext = Some (toy_ciphertext [0x68, 0x69])\<rparr>),
      (5, \<lparr>header = Some (toy_header\<lparr>recipient := None\<rparr>),
           ciphertext = Some (toy_ciphertext [0x68, 0x69])\<rparr>),
      (6, \<lparr>header = Some (toy_header\<lparr>recipient := Some \<lparr>identityKey = Some 5, preKey = None\<rparr>\<rparr>),
           ciphertext = Some (toy_ciphertext [0x68, 0x69])\<rparr>),
      (7, \<lparr>header = Some toy_header, ciphertext = Some \<lparr>aes256GcmHkdfSha256 = None\<rparr>\<rparr>),
      (8, \<lparr>header = Some (toy_header\<lparr>sender := Some \<lparr>identityKey = None, preKey = None\<rparr>\<rparr>),
           ciphertext = Some (toy_ciphertext [0x68, 0x69])\<rparr>),
      (9, \<lparr>header = Some (toy_header\<lparr>recipient := Some \<lparr>identityKey = Some 99, preKey = Some 7\<rparr>\<rparr>),
           ciphertext = Some (toy_ciphertext [0x68, 0x69])\<rparr>)]"

definition toy_Message_encode :: "(nat, toy_payload) proto_Message \<Rightarrow> bytes" where
  "toy_Message_encode m =
     (case find (\<lambda>e. snd e = m) toy_wire of Some e \<Rightarrow> [fst e] | None \<Rightarrow> [])"

definition toy_Message_decode :: "bytes \<Rightarrow> error + (nat, toy_payload) proto_Message" where
  "toy_Message_decode bs =
     (case bs of
        [b] \<Rightarrow>
          (case map_of toy_wire b of
             Some m \<Rightarrow> Inr m
           | None \<Rightarrow> Inl (Error ''invalid wire type''))
      | _ \<Rightarrow> Inl (Error ''invalid wire type''))"

definition toy :: "(nat, nat, nat list, toy_payload) ext" where
  "toy =
     \<lparr>proto_Message_Header_encode = toy_Header_encode,
      proto_Message_Header_decode = toy_Header_decode,
      proto_Message_encode = toy_Message_encode,
      proto_Message_decode = toy_Message_decode,
      KeyBundle_new = (\<lambda>k. k),
      PublicKey_new = (\<lambda>k. k),
      Ciphertext_new = (\<lambda>c. c),
      getKeyBundle = toy_getKeyBundle,
      sharedSecret = toy_sharedSecret,
      matches = (\<lambda>sk pk. sk = pk),
      encrypt = toy_encrypt,
      decrypt = toy_decrypt\<rparr>"

section \<open>Properties\<close>

subsection \<open>Unfolding rules\<close>

lemmas io_simps = io_bind_def io_await_def io_return_def io_throw_def Let_def

lemmas toy_simps = toy_def toy_sender_def toy_recipient_def toy_getKeyBundle_def
  toy_sharedSecret_def toy_encrypt_def toy_decrypt_def toy_header_def toy_header_swapped_def
  toy_Header_encode_def toy_Header_decode_def toy_ciphertext_def toy_wire_def
  toy_Message_encode_def toy_Message_decode_def

lemmas text_simps = TextEncoder_encode_def utf8_encode_scalar_def is_lead_def is_trail_def
  TextDecoder_decode_def utf16_units_def

lemmas run_simps = Message_decode_def Message_encode_def Message_encrypt_def
  Message_decrypt_def Message_new_def Header_new_def Message_toBytes_def associatedData_def

subsection \<open>The concrete instance keeps the contracts\<close>

text \<open>
  In the concrete instance the constructors copy their argument, the shared secret is
  the same on both sides, and decrypt inverts encrypt, whose result carries the payload.
\<close>

lemma toy_constructors:
  "KeyBundle_new toy k = k" "PublicKey_new toy pk = pk" "Ciphertext_new toy c = c"
  by (simp_all add: toy_def)

lemma toy_sharedSecret_symmetric:
  "sharedSecret toy rP (getKeyBundle toy sP) True = sharedSecret toy sP (getKeyBundle toy rP) False"
  by (simp add: toy_def toy_sharedSecret_def toy_getKeyBundle_def split: option.split)

lemma toy_decrypt_encrypt:
  assumes "encrypt toy pl sec a = Inr c"
  shows "decrypt toy c sec a = Inr pl" and "aes256GcmHkdfSha256 c \<noteq> None"
  using assms by (auto simp: toy_def toy_encrypt_def toy_decrypt_def)


lemma toy_wire_8:
  "proto_Message_decode toy [8] =
     Inr \<lparr>header = Some (toy_header\<lparr>sender := Some \<lparr>identityKey = None, preKey = None\<rparr>\<rparr>),
          ciphertext = Some (toy_ciphertext [0x68, 0x69])\<rparr>"
  by (simp add: toy_def toy_Message_decode_def toy_wire_def)

lemma toy_wire_9:
  "proto_Message_decode toy [9] =
     Inr \<lparr>header = Some (toy_header\<lparr>recipient := Some \<lparr>identityKey = Some 99, preKey = Some 7\<rparr>\<rparr>),
          ciphertext = Some (toy_ciphertext [0x68, 0x69])\<rparr>"
  by (simp add: toy_def toy_Message_decode_def toy_wire_def)

subsection \<open>The text codec on well-formed strings\<close>

text \<open>
  The decoder reads back each scalar value from its UTF-8 bytes; a well-formed string
  is the UTF-16 form of its scalar values; so \<open>TextDecoder\<close> returns a well-formed
  string that does not start with U+FEFF as \<open>TextEncoder\<close> received it. It drops a
  leading U+FEFF, and an unpaired surrogate comes back as U+FFFD.
\<close>

lemma unat_byte: "n < 256 \<Longrightarrow> unat (of_nat n :: byte) = n"
  by (simp add: unat_of_nat)

lemma mod_mult_add: "b < m \<Longrightarrow> (k * m + b) mod m = (b::nat)"
  by simp

lemma utf8_decode_1:
  assumes "cp < 0x80"
  shows "utf8_decode 0 0 0 0x80 0xBF (utf8_encode_scalar cp @ bs) =
         cp # utf8_decode 0 0 0 0x80 0xBF bs"
  using assms by (simp add: utf8_encode_scalar_def unat_byte)

lemma utf8_decode_2:
  assumes "0x80 \<le> cp" "cp < 0x800"
  shows "utf8_decode 0 0 0 0x80 0xBF (utf8_encode_scalar cp @ bs) =
         cp # utf8_decode 0 0 0 0x80 0xBF bs"
proof -
  define a b where "a = cp div 0x40" and "b = cp mod 0x40"
  have cp: "a * 0x40 + b = cp" by (simp add: a_def b_def)
  have ab: "b < 0x40" "2 \<le> a" "a < 0x20"
    using assms by (auto simp: a_def b_def)
  have b1: "unat (0xC0 + of_nat a :: byte) = 0xC0 + a"
    and b2: "unat (0x80 + of_nat b :: byte) = 0x80 + b"
    using ab unat_byte [of "0xC0 + a"] unat_byte [of "0x80 + b"] by simp_all
  have enc: "utf8_encode_scalar cp = [0xC0 + of_nat a, 0x80 + of_nat b]"
    using assms by (simp add: utf8_encode_scalar_def a_def b_def)
  have m1: "(0xC0 + a) mod 0x20 = a" using ab mod_mult_add [of a "0x20" 6] by simp
  have m2: "(0x80 + b) mod 0x40 = b" using ab mod_mult_add [of b "0x40" 2] by simp
  show ?thesis
    using ab by (simp add: enc b1 b2 m1 m2 cp)
qed

lemma split3:
  fixes cp :: nat
  defines "a \<equiv> cp div 0x1000" and "b \<equiv> (cp div 0x40) mod 0x40" and "c \<equiv> cp mod 0x40"
  shows "(a * 0x40 + b) * 0x40 + c = cp"
proof -
  have "cp div 0x1000 = (cp div 0x40) div 0x40"
    by (simp add: div_mult2_eq [symmetric])
  then have "a * 0x40 + b = cp div 0x40"
    by (simp add: a_def b_def)
  then show ?thesis by (simp add: c_def)
qed

lemma utf8_decode_3:
  assumes "0x800 \<le> cp" "cp < 0x10000" "scalar cp"
  shows "utf8_decode 0 0 0 0x80 0xBF (utf8_encode_scalar cp @ bs) =
         cp # utf8_decode 0 0 0 0x80 0xBF bs"
proof -
  define a b c where "a = cp div 0x1000" and "b = (cp div 0x40) mod 0x40" and "c = cp mod 0x40"
  have cp: "(a * 0x40 + b) * 0x40 + c = cp"
    unfolding a_def b_def c_def by (rule split3)
  have r: "a < 0x10" "b < 0x40" "c < 0x40"
    using assms by (auto simp: a_def b_def c_def)
  have lo: "a = 0 \<Longrightarrow> 0x20 \<le> b" using cp r assms(1) by arith
  have hi: "a = 0xD \<Longrightarrow> b < 0x20" using cp r assms(2,3) by (simp add: scalar_def)
  have b1: "unat (0xE0 + of_nat a :: byte) = 0xE0 + a"
    and b2: "unat (0x80 + of_nat b :: byte) = 0x80 + b"
    and b3: "unat (0x80 + of_nat c :: byte) = 0x80 + c"
    using r unat_byte [of "0xE0 + a"] unat_byte [of "0x80 + b"] unat_byte [of "0x80 + c"]
    by simp_all
  have enc: "utf8_encode_scalar cp = [0xE0 + of_nat a, 0x80 + of_nat b, 0x80 + of_nat c]"
    using assms by (simp add: utf8_encode_scalar_def a_def b_def c_def)
  have m1: "(0xE0 + a) mod 0x10 = a" using r mod_mult_add [of a "0x10" 14] by simp
  have m2: "(0x80 + b) mod 0x40 = b" using r mod_mult_add [of b "0x40" 2] by simp
  have m3: "(0x80 + c) mod 0x40 = c" using r mod_mult_add [of c "0x40" 2] by simp
  show ?thesis
    using r lo hi cp by (auto simp: enc b1 b2 b3 m1 m2 m3)
qed

lemma split4:
  fixes cp :: nat
  defines "a \<equiv> cp div 0x40000" and "b \<equiv> (cp div 0x1000) mod 0x40"
    and "c \<equiv> (cp div 0x40) mod 0x40" and "d \<equiv> cp mod 0x40"
  shows "((a * 0x40 + b) * 0x40 + c) * 0x40 + d = cp"
proof -
  have "cp div 0x40000 = (cp div 0x1000) div 0x40"
    by (simp add: div_mult2_eq [symmetric])
  then have "a * 0x40 + b = cp div 0x1000"
    by (simp add: a_def b_def)
  then have "(a * 0x40 + b) * 0x40 + c = cp div 0x40"
    using split3 [of cp] by (simp add: c_def)
  then show ?thesis by (simp add: d_def)
qed

lemma utf8_decode_4:
  assumes "0x10000 \<le> cp" "cp < 0x110000"
  shows "utf8_decode 0 0 0 0x80 0xBF (utf8_encode_scalar cp @ bs) =
         cp # utf8_decode 0 0 0 0x80 0xBF bs"
proof -
  define a b c d where "a = cp div 0x40000" and "b = (cp div 0x1000) mod 0x40"
    and "c = (cp div 0x40) mod 0x40" and "d = cp mod 0x40"
  have cp: "((a * 0x40 + b) * 0x40 + c) * 0x40 + d = cp"
    unfolding a_def b_def c_def d_def by (rule split4)
  have r: "a < 5" "b < 0x40" "c < 0x40" "d < 0x40"
    using assms by (auto simp: a_def b_def c_def d_def)
  have cp': "a * 0x40000 + b * 0x1000 + c * 0x40 + d = cp"
    using cp by (simp add: algebra_simps)
  have lo: "a = 0 \<Longrightarrow> 0x10 \<le> b" using cp' r assms(1) by linarith
  have hi: "a = 4 \<Longrightarrow> b < 0x10" using cp' r assms(2) by linarith
  have b1: "unat (0xF0 + of_nat a :: byte) = 0xF0 + a"
    and b2: "unat (0x80 + of_nat b :: byte) = 0x80 + b"
    and b3: "unat (0x80 + of_nat c :: byte) = 0x80 + c"
    and b4: "unat (0x80 + of_nat d :: byte) = 0x80 + d"
    using r unat_byte [of "0xF0 + a"] unat_byte [of "0x80 + b"] unat_byte [of "0x80 + c"]
      unat_byte [of "0x80 + d"]
    by simp_all
  have enc: "utf8_encode_scalar cp =
      [0xF0 + of_nat a, 0x80 + of_nat b, 0x80 + of_nat c, 0x80 + of_nat d]"
    using assms by (simp add: utf8_encode_scalar_def a_def b_def c_def d_def)
  have m1: "(0xF0 + a) mod 0x8 = a" using r mod_mult_add [of a "0x8" 30] by simp
  have m2: "(0x80 + b) mod 0x40 = b" using r mod_mult_add [of b "0x40" 2] by simp
  have m3: "(0x80 + c) mod 0x40 = c" using r mod_mult_add [of c "0x40" 2] by simp
  have m4: "(0x80 + d) mod 0x40 = d" using r mod_mult_add [of d "0x40" 2] by simp
  have "utf8_decode 0 0 0 0x80 0xBF
      ([0xF0 + of_nat a, 0x80 + of_nat b, 0x80 + of_nat c, 0x80 + of_nat d] @ bs) =
      (a * 0x40000 + b * 0x1000 + c * 0x40 + d) # utf8_decode 0 0 0 0x80 0xBF bs"
  proof -
    consider "a = 0" | "a = 1" | "a = 2" | "a = 3" | "a = 4" using r(1) by linarith
    then show ?thesis
    proof cases
      case 1
      with lo have "0x10 \<le> b" by simp
      with 1 r show ?thesis by (simp add: b2 b3 b4 m2 m3 m4)
    next
      case 2
      with r show ?thesis by (simp add: b2 b3 b4 m2 m3 m4)
    next
      case 3
      with r show ?thesis by (simp add: b2 b3 b4 m2 m3 m4)
    next
      case 4
      with r show ?thesis by (simp add: b2 b3 b4 m2 m3 m4)
    next
      case 5
      with hi have "b < 0x10" by simp
      with 5 r show ?thesis by (simp add: b2 b3 b4 m2 m3 m4)
    qed
  qed
  then show ?thesis
    by (simp only: enc cp')
qed

lemma utf8_decode_one:
  assumes "scalar cp"
  shows "utf8_decode 0 0 0 0x80 0xBF (utf8_encode_scalar cp @ bs) =
         cp # utf8_decode 0 0 0 0x80 0xBF bs"
proof -
  consider "cp < 0x80" | "0x80 \<le> cp" "cp < 0x800" | "0x800 \<le> cp" "cp < 0x10000"
    | "0x10000 \<le> cp" "cp < 0x110000"
    using assms unfolding scalar_def by linarith
  then show ?thesis
    using assms by cases (simp_all add: utf8_decode_1 utf8_decode_2 utf8_decode_3 utf8_decode_4)
qed

lemma utf8_decode_all:
  "list_all scalar cps \<Longrightarrow>
   utf8_decode 0 0 0 0x80 0xBF (concat (map utf8_encode_scalar cps)) = cps"
  by (induction cps) (simp_all add: utf8_decode_one)

lemma unit_scalar:
  assumes "\<not> is_lead c" "\<not> is_trail c"
  shows "scalar (unat c)" and "utf16_units (unat c) = [c]"
proof -
  have "unat c < 0x10000" using unsigned_less [of c] by simp
  with assms show "scalar (unat c)" and "utf16_units (unat c) = [c]"
    by (auto simp: scalar_def is_lead_def is_trail_def utf16_units_def)
qed

lemma pair_scalar:
  assumes "is_lead c" "is_trail d"
  defines "v \<equiv> 0x10000 + (unat c - 0xD800) * 0x400 + (unat d - 0xDC00)"
  shows "scalar v" and "utf16_units v = [c, d]" and "v \<noteq> 0xFEFF"
proof -
  define x y where "x = unat c - 0xD800" and "y = unat d - 0xDC00"
  have xy: "x < 0x400" "y < 0x400" "unat c = 0xD800 + x" "unat d = 0xDC00 + y"
    using assms(1,2) by (auto simp: is_lead_def is_trail_def x_def y_def)
  have v: "v = 0x10000 + (x * 0x400 + y)" by (simp add: v_def x_def y_def)
  show "scalar v" and "v \<noteq> 0xFEFF" using xy by (simp_all add: v scalar_def)
  have "(x * 0x400 + y) div 0x400 = x" "(x * 0x400 + y) mod 0x400 = y"
    using xy by simp_all
  moreover have "of_nat (0xD800 + x) = c" "of_nat (0xDC00 + y) = d"
    using xy(3,4) [symmetric] by simp_all
  ultimately show "utf16_units v = [c, d]"
    by (simp add: v utf16_units_def)
qed

lemma well_formed_scalars:
  "well_formed s \<Longrightarrow>
   list_all scalar (to_scalar_values s) \<and> concat (map utf16_units (to_scalar_values s)) = s"
proof (induction s rule: to_scalar_values.induct)
  case 1
  then show ?case by simp
next
  case (2 c)
  then show ?case by (simp add: unit_scalar)
next
  case (3 c d cs)
  show ?case
  proof (cases "is_lead c")
    case True
    with 3 show ?thesis by (simp add: pair_scalar)
  next
    case False
    with 3 show ?thesis by (simp add: unit_scalar)
  qed
qed

lemma unat_bom: "unat (c :: 16 word) = 0xFEFF \<longleftrightarrow> c = 0xFEFF"
  by (simp add: word_unat_eq_iff)

lemma well_formed_no_bom:
  assumes "well_formed s" "no_bom s"
  shows "strip_bom (to_scalar_values s) = to_scalar_values s"
proof (cases s rule: to_scalar_values.cases)
  case 1
  then show ?thesis by simp
next
  case (2 c)
  with assms show ?thesis by (simp add: unat_bom)
next
  case (3 c d cs)
  with assms show ?thesis by (simp add: unat_bom pair_scalar)
qed

lemma text_roundtrip:
  assumes "well_formed s" "no_bom s"
  shows "TextDecoder_decode (TextEncoder_encode s) = s"
  using well_formed_scalars [OF assms(1)] well_formed_no_bom [OF assms]
  by (simp add: TextDecoder_decode_def TextEncoder_encode_def utf8_decode_all)

lemma text_codec_bom: "TextDecoder_decode (TextEncoder_encode [0xFEFF, 0x68]) = [0x68]"
  by (simp add: text_simps)

lemma text_codec_unpaired_surrogate:
  "TextDecoder_decode (TextEncoder_encode [0xD800]) = [0xFFFD]"
  by (simp add: text_simps)

subsection \<open>What decode and encode do once their checks pass\<close>

text \<open>
  When the wire message has its header, sender, recipient, recipient pre-key and
  ciphertext payload, and the local bundle has a current pre-key that matches and a
  stored pre-key, \<open>decode\<close> is the decryption followed by the construction of the
  result. When \<open>encode\<close> returns, both primitives returned, and the log and the message
  are determined by what they returned.
\<close>

lemma decode_validated:
  assumes "proto_Message_decode x bs = Inr m" "header m = Some h" "sender h = Some hs"
    "recipient h = Some hr" "preKey hr = Some hpk" "privPreKey rc = Some rpk"
    "preKeys rc \<noteq> []" "matches x rpk (PublicKey_new x hpk)"
    "ciphertext m = Some wct" "aes256GcmHkdfSha256 wct = Some pl"
  shows "Message_decode x rc bs =
     io_bind (Message_decrypt x (Ciphertext_new x wct) (KeyBundle_new x hs) rc)
       (\<lambda>bs'. io_return ((Message_new x m)\<lparr>decrypted := Some (TextDecoder_decode bs')\<rparr>))"
  using assms by (simp add: Message_decode_def)

lemma encode_success:
  assumes "Message_encode x sP rK p = (lg, Inr msg)"
  shows "\<exists>sec ct.
     sharedSecret x sP rK False = Inr sec \<and>
     encrypt x (TextEncoder_encode p) sec
       (associatedData x \<lparr>ad_sender = getKeyBundle x sP, ad_recipient = rK\<rparr>) = Inr ct \<and>
     lg = [SharedSecret sP rK False,
           Encrypt (TextEncoder_encode p) sec
             (associatedData x \<lparr>ad_sender = getKeyBundle x sP, ad_recipient = rK\<rparr>)] \<and>
     msg = \<lparr>header = Some \<lparr>sender = Some (KeyBundle_new x (getKeyBundle x sP)),
                            recipient = Some (KeyBundle_new x rK)\<rparr>,
            ciphertext = Some (Ciphertext_new x ct), decrypted = Some p\<rparr>"
  using assms
  by (auto simp: Message_encode_def Message_encrypt_def Message_new_def Header_new_def io_simps
      split: sum.splits)

lemma decode_validated_calls:
  assumes "proto_Message_decode x bs = Inr m" "header m = Some h" "sender h = Some hs"
    "recipient h = Some hr" "preKey hr = Some hpk" "privPreKey rP = Some rpk"
    "preKeys rP \<noteq> []" "matches x rpk (PublicKey_new x hpk)"
    "ciphertext m = Some wct" "aes256GcmHkdfSha256 wct = Some pl"
  shows "hd (fst (Message_decode x rP bs)) = SharedSecret rP (KeyBundle_new x hs) True"
    and "fst (Message_decode x rP bs) \<noteq> []"
    and "filter is_SharedSecret (fst (Message_decode x rP bs)) =
      [SharedSecret rP (KeyBundle_new x hs) True]"
  unfolding decode_validated [OF assms]
  by (auto simp: Message_decrypt_def io_simps split: sum.splits)

subsection \<open>Round trip\<close>

text \<open>
  C1, as stated: for every sender, recipient and plaintext, if the shared-secret
  derivation is symmetric across the role flag and decrypt inverts encrypt, then decoding
  the bytes of an encoded message succeeds with \<open>decrypted\<close> equal to the plaintext.
  This fails for the plaintext U+FEFF \<open>h\<close>: \<open>TextEncoder\<close> writes the byte order mark
  as EF BB BF, and \<open>TextDecoder\<close>, created with its defaults, drops it, so \<open>decrypted\<close>
  is \<open>h\<close> alone, although encode and decode both succeed and the collaborators keep
  the contracts the claim assumes (\<open>toy_sharedSecret_symmetric\<close>,
  \<open>toy_decrypt_encrypt\<close>).
\<close>

theorem Message_roundtrip_bom_counterexample:
  "Message_encode toy toy_sender (toy_getKeyBundle toy_recipient) [0xFEFF, 0x68] =
     ([SharedSecret toy_sender (toy_getKeyBundle toy_recipient) False,
       Encrypt [0xEF, 0xBB, 0xBF, 0x68] [2, 3, 5, 7] [1]],
      Inr \<lparr>header = Some toy_header,
           ciphertext = Some (toy_ciphertext [0xEF, 0xBB, 0xBF, 0x68]),
           decrypted = Some [0xFEFF, 0x68]\<rparr>) \<and>
   Message_toBytes toy
     \<lparr>header = Some toy_header, ciphertext = Some (toy_ciphertext [0xEF, 0xBB, 0xBF, 0x68]),
      decrypted = Some [0xFEFF, 0x68]\<rparr> = [2] \<and>
   sharedSecret toy toy_recipient (getKeyBundle toy toy_sender) True =
     sharedSecret toy toy_sender (toy_getKeyBundle toy_recipient) False \<and>
   decrypt toy (toy_ciphertext [0xEF, 0xBB, 0xBF, 0x68]) [2, 3, 5, 7] [1] =
     Inr [0xEF, 0xBB, 0xBF, 0x68] \<and>
   Message_decode toy toy_recipient [2] =
     ([SharedSecret toy_recipient (toy_getKeyBundle toy_sender) True,
       Decrypt (toy_ciphertext [0xEF, 0xBB, 0xBF, 0x68]) [2, 3, 5, 7] [1]],
      Inr \<lparr>header = Some toy_header,
           ciphertext = Some (toy_ciphertext [0xEF, 0xBB, 0xBF, 0x68]),
           decrypted = Some [0x68]\<rparr>) \<and>
   [0x68] \<noteq> [0xFEFF, 0x68 :: 16 word]"
  by (simp add: run_simps io_simps toy_simps text_simps)

text \<open>
  C1, amended: the round trip holds for every plaintext that is well formed and does not
  start with U+FEFF, given that the constructors copy their argument, that the wire
  codec decodes the bytes of the encoded message to its header and ciphertext, that the
  recipient's private bundle belongs to the recipient key bundle (its current pre-key
  matches the bundle's, and it stores a pre-key), that the shared secret is symmetric
  across the role flag and that decrypt inverts encrypt, whose result carries the
  \<open>aes256GcmHkdfSha256\<close> payload: if \<open>encode\<close> returns a message, \<open>decode\<close> of its
  bytes returns a message whose \<open>decrypted\<close> is the plaintext.
\<close>

theorem Message_roundtrip:
  assumes enc: "Message_encode x sP rK p = (lg, Inr msg)"
    and pair: "getKeyBundle x rP = rK" "preKey rK = Some hpk" "privPreKey rP = Some rpk"
      "preKeys rP \<noteq> []" "matches x rpk (PublicKey_new x hpk)"
    and ctor: "\<And>k. KeyBundle_new x k = k" "\<And>c. Ciphertext_new x c = c"
    and codec: "proto_Message_decode x (Message_toBytes x msg) =
      Inr \<lparr>header = header msg, ciphertext = ciphertext msg\<rparr>"
    and dh: "sharedSecret x rP (getKeyBundle x sP) True = sharedSecret x sP rK False"
    and aead: "\<And>pl sec a c. encrypt x pl sec a = Inr c \<Longrightarrow>
      decrypt x c sec a = Inr pl \<and> aes256GcmHkdfSha256 c \<noteq> None"
    and wf: "well_formed p" "no_bom p"
  shows "\<exists>lg' msg'. Message_decode x rP (Message_toBytes x msg) = (lg', Inr msg') \<and>
           decrypted msg' = Some p"
proof -
  let ?ad = "associatedData x \<lparr>ad_sender = getKeyBundle x sP, ad_recipient = rK\<rparr>"
  from encode_success [OF enc] obtain sec ct where
    sec: "sharedSecret x sP rK False = Inr sec" and
    ct: "encrypt x (TextEncoder_encode p) sec ?ad = Inr ct" and
    msg: "msg = \<lparr>header = Some \<lparr>sender = Some (getKeyBundle x sP), recipient = Some rK\<rparr>,
                 ciphertext = Some ct, decrypted = Some p\<rparr>"
    by (auto simp: ctor)
  from aead [OF ct] obtain payload where
    dec: "decrypt x ct sec ?ad = Inr (TextEncoder_encode p)" and
    payload: "aes256GcmHkdfSha256 ct = Some payload"
    by auto
  have "Message_decode x rP (Message_toBytes x msg) =
     io_bind (Message_decrypt x ct (getKeyBundle x sP) rP)
       (\<lambda>bs'. io_return (msg\<lparr>decrypted := Some (TextDecoder_decode bs')\<rparr>))"
    using decode_validated [OF codec, of
        "\<lparr>sender = Some (getKeyBundle x sP), recipient = Some rK\<rparr>" "getKeyBundle x sP" rK
        hpk rP rpk ct payload]
      pair(2-5) payload
    by (simp add: msg ctor Message_new_def Header_new_def)
  then show ?thesis
    by (simp add: Message_decrypt_def io_simps dh sec pair(1) dec text_roundtrip [OF wf] msg)
qed

theorem Message_roundtrip_witness:
  "\<exists>lg' msg'.
     Message_decode toy toy_recipient
       (Message_toBytes toy
          \<lparr>header = Some toy_header, ciphertext = Some (toy_ciphertext [0x68, 0x69]),
           decrypted = Some [0x68, 0x69]\<rparr>) = (lg', Inr msg') \<and>
     decrypted msg' = Some [0x68, 0x69]"
proof (rule Message_roundtrip [where sP = toy_sender and rK = "toy_getKeyBundle toy_recipient"
      and hpk = 7 and rpk = 7
      and lg = "[SharedSecret toy_sender (toy_getKeyBundle toy_recipient) False,
                 Encrypt [0x68, 0x69] [2, 3, 5, 7] [1]]"])
  show "Message_encode toy toy_sender (toy_getKeyBundle toy_recipient) [0x68, 0x69] =
     ([SharedSecret toy_sender (toy_getKeyBundle toy_recipient) False,
       Encrypt [0x68, 0x69] [2, 3, 5, 7] [1]],
      Inr \<lparr>header = Some toy_header, ciphertext = Some (toy_ciphertext [0x68, 0x69]),
           decrypted = Some [0x68, 0x69]\<rparr>)"
    by (simp add: run_simps io_simps toy_simps text_simps)
  show "getKeyBundle toy toy_recipient = toy_getKeyBundle toy_recipient"
    by (simp add: toy_def)
  show "preKey (toy_getKeyBundle toy_recipient) = Some 7"
    by (simp add: toy_simps)
  show "privPreKey toy_recipient = Some 7" by (simp add: toy_simps)
  show "preKeys toy_recipient \<noteq> []" by (simp add: toy_simps)
  show "matches toy 7 (PublicKey_new toy 7)" by (simp add: toy_def)
  show "\<And>k. KeyBundle_new toy k = k" by (rule toy_constructors)
  show "\<And>c. Ciphertext_new toy c = c" by (rule toy_constructors)
  show "proto_Message_decode toy
     (Message_toBytes toy
        \<lparr>header = Some toy_header, ciphertext = Some (toy_ciphertext [0x68, 0x69]),
         decrypted = Some [0x68, 0x69]\<rparr>) =
    Inr \<lparr>header = header \<lparr>header = Some toy_header,
              ciphertext = Some (toy_ciphertext [0x68, 0x69]), decrypted = Some [0x68, 0x69]\<rparr>,
         ciphertext = ciphertext \<lparr>header = Some toy_header,
              ciphertext = Some (toy_ciphertext [0x68, 0x69]), decrypted = Some [0x68, 0x69]\<rparr>\<rparr>"
    by (simp add: Message_toBytes_def toy_simps)
  show "sharedSecret toy toy_recipient (getKeyBundle toy toy_sender) True =
    sharedSecret toy toy_sender (toy_getKeyBundle toy_recipient) False"
    using toy_sharedSecret_symmetric [of toy_recipient toy_sender] by (simp add: toy_def)
  show "\<And>pl sec a c. encrypt toy pl sec a = Inr c \<Longrightarrow>
      decrypt toy c sec a = Inr pl \<and> aes256GcmHkdfSha256 c \<noteq> None"
    by (simp add: toy_decrypt_encrypt)
  show "well_formed [0x68, 0x69]" by (simp add: is_lead_def is_trail_def)
  show "no_bom [0x68, 0x69]" by simp
qed

subsection \<open>Missing fields\<close>

text \<open>
  C2: a wire message that lacks its header, or else its sender, or else its recipient,
  or else the recipient's pre-key, makes \<open>decode\<close> throw the error of that field,
  whatever the other fields are; a wire message that has all of these, with the named
  pre-key matching the current pre-key of a local bundle that stores a pre-key, and that
  lacks the ciphertext or its \<open>aes256GcmHkdfSha256\<close> payload, makes \<open>decode\<close> throw
  \<open>missing message ciphertext\<close>. In each case the log is empty: neither the
  shared-secret derivation nor the AEAD decrypt was invoked.
\<close>

theorem decode_missing_field:
  assumes "proto_Message_decode x bs = Inr m"
  shows
   "(header m = None \<longrightarrow>
       Message_decode x rP bs = ([], Inl (Error ''missing message header''))) \<and>
    (\<forall>h. header m = Some h \<and> sender h = None \<longrightarrow>
       Message_decode x rP bs = ([], Inl (Error ''missing message sender''))) \<and>
    (\<forall>h hs. header m = Some h \<and> sender h = Some hs \<and> recipient h = None \<longrightarrow>
       Message_decode x rP bs = ([], Inl (Error ''missing message recipient''))) \<and>
    (\<forall>h hs hr. header m = Some h \<and> sender h = Some hs \<and> recipient h = Some hr \<and>
         preKey hr = None \<longrightarrow>
       Message_decode x rP bs = ([], Inl (Error ''missing message recipient pre key''))) \<and>
    (\<forall>h hs hr hpk rpk. header m = Some h \<and> sender h = Some hs \<and> recipient h = Some hr \<and>
         preKey hr = Some hpk \<and> privPreKey rP = Some rpk \<and> preKeys rP \<noteq> [] \<and>
         matches x rpk (PublicKey_new x hpk) \<and>
         Option.bind (ciphertext m) aes256GcmHkdfSha256 = None \<longrightarrow>
       Message_decode x rP bs = ([], Inl (Error ''missing message ciphertext'')))"
  using assms
  by (auto simp: Message_decode_def io_throw_def split: option.splits)

theorem decode_missing_field_witness:
  "Message_decode toy toy_recipient [3] = ([], Inl (Error ''missing message header'')) \<and>
   Message_decode toy toy_recipient [4] = ([], Inl (Error ''missing message sender'')) \<and>
   Message_decode toy toy_recipient [5] = ([], Inl (Error ''missing message recipient'')) \<and>
   Message_decode toy toy_recipient [6] =
     ([], Inl (Error ''missing message recipient pre key'')) \<and>
   Message_decode toy toy_recipient [7] = ([], Inl (Error ''missing message ciphertext''))"
proof -
  let ?ct = "toy_ciphertext [0x68, 0x69]"
  have m3: "proto_Message_decode toy [3] = Inr \<lparr>header = None, ciphertext = Some ?ct\<rparr>"
    and m4: "proto_Message_decode toy [4] =
      Inr \<lparr>header = Some (toy_header\<lparr>sender := None\<rparr>), ciphertext = Some ?ct\<rparr>"
    and m5: "proto_Message_decode toy [5] =
      Inr \<lparr>header = Some (toy_header\<lparr>recipient := None\<rparr>), ciphertext = Some ?ct\<rparr>"
    and m6: "proto_Message_decode toy [6] =
      Inr \<lparr>header = Some (toy_header\<lparr>recipient := Some \<lparr>identityKey = Some 5, preKey = None\<rparr>\<rparr>),
           ciphertext = Some ?ct\<rparr>"
    and m7: "proto_Message_decode toy [7] =
      Inr \<lparr>header = Some toy_header, ciphertext = Some \<lparr>aes256GcmHkdfSha256 = None\<rparr>\<rparr>"
    by (simp_all add: toy_def toy_Message_decode_def toy_wire_def)
  have ok: "privPreKey toy_recipient = Some 7" "preKeys toy_recipient \<noteq> []"
    "matches toy 7 (PublicKey_new toy 7)"
    by (simp_all add: toy_def toy_recipient_def)
  have "Message_decode toy toy_recipient [3] = ([], Inl (Error ''missing message header''))"
    using decode_missing_field [OF m3, of toy_recipient] by simp
  moreover
  have "Message_decode toy toy_recipient [4] = ([], Inl (Error ''missing message sender''))"
    using decode_missing_field [OF m4, of toy_recipient] by simp
  moreover
  have "Message_decode toy toy_recipient [5] = ([], Inl (Error ''missing message recipient''))"
    using decode_missing_field [OF m5, of toy_recipient] by (simp add: toy_header_def)
  moreover
  have "Message_decode toy toy_recipient [6] =
      ([], Inl (Error ''missing message recipient pre key''))"
    using decode_missing_field [OF m6, of toy_recipient] by (simp add: toy_header_def)
  moreover
  have "Message_decode toy toy_recipient [7] = ([], Inl (Error ''missing message ciphertext''))"
    using decode_missing_field [OF m7, of toy_recipient] ok
    by (simp add: toy_header_def toy_getKeyBundle_def)
  ultimately show ?thesis by simp
qed

subsection \<open>Errors of the checks\<close>

text \<open>
  C3, as stated: every check of \<open>decode\<close> produces an error of its own, and in
  particular a wire header whose recipient names no pre-key and a local bundle without
  current pre-key are told apart by the error. Both checks throw
  \<open>Error('missing message recipient pre key')\<close>: the first input below has the local
  pre-key and lacks the wire pre-key, the second has the wire pre-key and lacks the local
  one, and \<open>decode\<close> returns the same error for both.
\<close>

theorem decode_preKey_checks_same_error_counterexample:
  "wire_recipient_preKey
     \<lparr>header = Some (toy_header\<lparr>recipient := Some \<lparr>identityKey = Some 5, preKey = None\<rparr>\<rparr>),
      ciphertext = Some (toy_ciphertext [0x68, 0x69])\<rparr> = None \<and>
   privPreKey toy_recipient = Some 7 \<and>
   Message_decode toy toy_recipient [6] =
     ([], Inl (Error ''missing message recipient pre key'')) \<and>
   wire_recipient_preKey
     \<lparr>header = Some toy_header, ciphertext = Some (toy_ciphertext [0x68, 0x69])\<rparr> = Some 7 \<and>
   privPreKey (toy_recipient\<lparr>privPreKey := None\<rparr>) = None \<and>
   Message_decode toy (toy_recipient\<lparr>privPreKey := None\<rparr>) [1] =
     ([], Inl (Error ''missing message recipient pre key''))"
  by (simp add: run_simps io_simps toy_simps wire_recipient_preKey_def)

text \<open>
  The first failing check decides the outcome of \<open>decode\<close>; when no check fails, the
  message and the local bundle have everything the checks require, and \<open>decode\<close>
  derives the shared secret first; apart from the two pre-key checks above, different
  checks have different errors.
\<close>

lemma first_failed_unfold:
  "first_failed x rP m =
     (if header m = None then Some Header_present
      else if Option.bind (header m) sender = None then Some Sender_present
      else if Option.bind (header m) recipient = None then Some Recipient_present
      else if wire_recipient_preKey m = None then Some Recipient_preKey_present
      else if privPreKey rP = None then Some Current_preKey_present
      else if preKeys rP = [] then Some PreKeys_nonempty
      else if fails x rP m PreKey_matches then Some PreKey_matches
      else if Option.bind (ciphertext m) aes256GcmHkdfSha256 = None
        then Some Ciphertext_payload_present
      else None)"
  by (simp add: first_failed_def pipeline_def)

lemma decode_first_failed:
  assumes "proto_Message_decode x bs = Inr m" "first_failed x rP m = Some c"
  shows "Message_decode x rP bs = ([], Inl (check_error c))"
  using assms
  by (auto simp: first_failed_unfold wire_recipient_preKey_def Message_decode_def io_throw_def
      split: option.splits if_splits)

lemma none_failed_validated:
  assumes "first_failed x rP m = None"
  shows "\<exists>h hs hr hpk rpk wct pl.
    header m = Some h \<and> sender h = Some hs \<and> recipient h = Some hr \<and> preKey hr = Some hpk \<and>
    privPreKey rP = Some rpk \<and> preKeys rP \<noteq> [] \<and> matches x rpk (PublicKey_new x hpk) \<and>
    ciphertext m = Some wct \<and> aes256GcmHkdfSha256 wct = Some pl"
  using assms
  by (auto simp: first_failed_unfold wire_recipient_preKey_def
      split: option.splits if_splits Option.bind_splits)

lemma decode_none_failed_derives:
  assumes "proto_Message_decode x bs = Inr m" "first_failed x rP m = None"
  shows "\<exists>h hs. header m = Some h \<and> sender h = Some hs \<and>
     fst (Message_decode x rP bs) \<noteq> [] \<and>
     hd (fst (Message_decode x rP bs)) = SharedSecret rP (KeyBundle_new x hs) True \<and>
     filter is_SharedSecret (fst (Message_decode x rP bs)) =
       [SharedSecret rP (KeyBundle_new x hs) True]"
proof -
  from none_failed_validated [OF assms(2)] obtain h hs hr hpk rpk wct pl where
    v: "header m = Some h" "sender h = Some hs" "recipient h = Some hr" "preKey hr = Some hpk"
      "privPreKey rP = Some rpk" "preKeys rP \<noteq> []" "matches x rpk (PublicKey_new x hpk)"
      "ciphertext m = Some wct" "aes256GcmHkdfSha256 wct = Some pl"
    by blast
  from decode_validated_calls [OF assms(1) v] v(1,2) show ?thesis by blast
qed

lemma check_error_distinct:
  assumes "c \<noteq> c'" "{c, c'} \<noteq> {Recipient_preKey_present, Current_preKey_present}"
  shows "check_error c \<noteq> check_error c'"
  using assms by (cases c; cases c'; simp add: doubleton_eq_iff)

text \<open>
  C3, amended: the first check that an input fails surfaces at once as that check's
  error, with no primitive invoked and no partial result; an input that fails no check
  reaches the shared-secret derivation: the first primitive \<open>decode\<close> invokes is
  \<open>recipient.sharedSecret(sender, true)\<close> with the sender built from the wire header,
  and it is the only derivation; and the errors of two different checks differ, unless
  the two are the check of the wire header's recipient pre-key and the check of the
  local bundle's current pre-key.
\<close>

theorem decode_check_errors:
  "(proto_Message_decode x bs = Inr m \<longrightarrow> first_failed x rP m = Some c \<longrightarrow>
      Message_decode x rP bs = ([], Inl (check_error c))) \<and>
   (proto_Message_decode x bs = Inr m \<longrightarrow> first_failed x rP m = None \<longrightarrow>
      (\<exists>h hs. header m = Some h \<and> sender h = Some hs \<and>
         fst (Message_decode x rP bs) \<noteq> [] \<and>
         hd (fst (Message_decode x rP bs)) = SharedSecret rP (KeyBundle_new x hs) True \<and>
         filter is_SharedSecret (fst (Message_decode x rP bs)) =
           [SharedSecret rP (KeyBundle_new x hs) True])) \<and>
   (c \<noteq> c' \<longrightarrow> {c, c'} \<noteq> {Recipient_preKey_present, Current_preKey_present} \<longrightarrow>
      check_error c \<noteq> check_error c')"
  using decode_first_failed decode_none_failed_derives check_error_distinct by blast

theorem decode_check_errors_witness:
  "first_failed toy toy_recipient
     \<lparr>header = Some toy_header, ciphertext = Some \<lparr>aes256GcmHkdfSha256 = None\<rparr>\<rparr> =
     Some Ciphertext_payload_present \<and>
   Message_decode toy toy_recipient [7] = ([], Inl (Error ''missing message ciphertext'')) \<and>
   first_failed toy toy_recipient
     \<lparr>header = Some toy_header, ciphertext = Some (toy_ciphertext [0x68, 0x69])\<rparr> = None \<and>
   fst (Message_decode toy toy_recipient [1]) \<noteq> [] \<and>
   hd (fst (Message_decode toy toy_recipient [1])) =
     SharedSecret toy_recipient (toy_getKeyBundle toy_sender) True \<and>
   filter is_SharedSecret (fst (Message_decode toy toy_recipient [1])) =
     [SharedSecret toy_recipient (toy_getKeyBundle toy_sender) True] \<and>
   check_error Ciphertext_payload_present \<noteq> check_error Recipient_preKey_present"
proof -
  have m7: "proto_Message_decode toy [7] =
      Inr \<lparr>header = Some toy_header, ciphertext = Some \<lparr>aes256GcmHkdfSha256 = None\<rparr>\<rparr>"
    and m1: "proto_Message_decode toy [1] =
      Inr \<lparr>header = Some toy_header, ciphertext = Some (toy_ciphertext [0x68, 0x69])\<rparr>"
    by (simp_all add: toy_def toy_Message_decode_def toy_wire_def)
  have f7: "first_failed toy toy_recipient
     \<lparr>header = Some toy_header, ciphertext = Some \<lparr>aes256GcmHkdfSha256 = None\<rparr>\<rparr> =
     Some Ciphertext_payload_present"
    and f1: "first_failed toy toy_recipient
     \<lparr>header = Some toy_header, ciphertext = Some (toy_ciphertext [0x68, 0x69])\<rparr> = None"
    by (simp_all add: first_failed_def pipeline_def wire_recipient_preKey_def toy_simps)
  have s: "sender toy_header = Some (toy_getKeyBundle toy_sender)"
    by (simp add: toy_header_def)
  let ?m1 = "\<lparr>header = Some toy_header, ciphertext = Some (toy_ciphertext [0x68, 0x69])\<rparr>"
  let ?m7 = "\<lparr>header = Some toy_header, ciphertext = Some \<lparr>aes256GcmHkdfSha256 = None\<rparr>\<rparr>"
  have e7: "Message_decode toy toy_recipient [7] =
      ([], Inl (check_error Ciphertext_payload_present))"
    and d: "check_error Ciphertext_payload_present \<noteq> check_error Recipient_preKey_present"
    using decode_check_errors [of toy "[7]" ?m7 toy_recipient Ciphertext_payload_present
        Recipient_preKey_present] m7 f7
    by (simp_all add: doubleton_eq_iff)
  from decode_check_errors [of toy "[1]" ?m1 toy_recipient Ciphertext_payload_present
      Recipient_preKey_present] m1 f1
  obtain h hs where "header ?m1 = Some h" "sender h = Some hs"
    "fst (Message_decode toy toy_recipient [1]) \<noteq> []"
    "hd (fst (Message_decode toy toy_recipient [1])) =
       SharedSecret toy_recipient (KeyBundle_new toy hs) True"
    "filter is_SharedSecret (fst (Message_decode toy toy_recipient [1])) =
       [SharedSecret toy_recipient (KeyBundle_new toy hs) True]"
    by blast
  with s have "fst (Message_decode toy toy_recipient [1]) \<noteq> []"
    "hd (fst (Message_decode toy toy_recipient [1])) =
       SharedSecret toy_recipient (toy_getKeyBundle toy_sender) True"
    "filter is_SharedSecret (fst (Message_decode toy toy_recipient [1])) =
       [SharedSecret toy_recipient (toy_getKeyBundle toy_sender) True]"
    by (simp_all add: toy_constructors)
  with e7 d f7 f1 show ?thesis by simp
qed

subsection \<open>Direction of the key agreement\<close>



subsection \<open>Associated data and header\<close>





subsection \<open>Pre-key mismatch\<close>

text \<open>
  C7, as stated: whenever the wire header passes the structural checks and the local
  bundle's current pre-key does not match the pre-key the header names, \<open>decode\<close> fails
  with the mismatch error, whatever the other fields are. The source tests
  \<open>recipient.preKeys.length === 0\<close> before it compares the pre-keys: a local bundle
  whose current pre-key 8 does not match the named pre-key 7 and that stores no pre-key
  fails with \<open>missing pre key\<close>.
\<close>

theorem decode_mismatch_empty_inventory_counterexample:
  "proto_Message_decode toy [1] =
     Inr \<lparr>header = Some toy_header, ciphertext = Some (toy_ciphertext [0x68, 0x69])\<rparr> \<and>
   preKey (toy_getKeyBundle toy_recipient) = Some 7 \<and>
   \<not> matches toy 8 (PublicKey_new toy 7) \<and>
   Message_decode toy \<lparr>privIdentityKey = Some 5, privPreKey = Some 8, preKeys = []\<rparr> [1] =
     ([], Inl (Error ''missing pre key'')) \<and>
   Error ''missing pre key'' \<noteq> Error ''recipient pre-key mismatch''"
  by (simp add: run_simps io_simps toy_simps)

text \<open>
  C7, amended: whenever the wire header passes the structural checks and the local
  bundle stores at least one pre-key and has a current pre-key that does not match the
  pre-key the header names, \<open>decode\<close> fails with \<open>recipient pre-key mismatch\<close>,
  whatever the sender bundle and the ciphertext are, and the log is empty: no primitive
  was invoked.
\<close>

theorem decode_preKey_mismatch:
  assumes "proto_Message_decode x bs = Inr m" "header m = Some h" "sender h = Some hs"
    "recipient h = Some hr" "preKey hr = Some hpk"
    "privPreKey rP = Some rpk" "preKeys rP \<noteq> []"
    "\<not> matches x rpk (PublicKey_new x hpk)"
  shows "Message_decode x rP bs = ([], Inl (Error ''recipient pre-key mismatch''))"
  using assms by (simp add: Message_decode_def io_throw_def)

theorem decode_preKey_mismatch_witness:
  "Message_decode toy (toy_recipient\<lparr>privPreKey := Some 8, preKeys := [8]\<rparr>) [1] =
     ([], Inl (Error ''recipient pre-key mismatch''))"
  by (rule decode_preKey_mismatch [of toy "[1]"
        "\<lparr>header = Some toy_header, ciphertext = Some (toy_ciphertext [0x68, 0x69])\<rparr>"
        toy_header "toy_getKeyBundle toy_sender" "toy_getKeyBundle toy_recipient" 7 _ 8])
    (simp_all add: toy_simps)

subsection \<open>Header serialization\<close>

text \<open>
  C8: for a header \<open>h\<close> with sender and recipient, \<open>Header.fromBytes(h.toBytes())\<close>
  returns \<open>h\<close>, given that the wire codec decodes the bytes of \<open>h\<close> to \<open>h\<close> and that
  the \<open>KeyBundle\<close> constructor copies the two bundles.
\<close>

theorem Header_roundtrip:
  assumes "sender h = Some a" and "recipient h = Some b"
    and "proto_Message_Header_decode x (proto_Message_Header_encode x h) = Inr h"
    and "KeyBundle_new x a = a" and "KeyBundle_new x b = b"
  shows "Header_fromBytes x (Header_toBytes x h) = Inr h"
  using assms by (simp add: Header_fromBytes_def Header_toBytes_def Header_new_def)

theorem Header_roundtrip_witness:
  "Header_fromBytes toy (Header_toBytes toy toy_header) = Inr toy_header"
  by (rule Header_roundtrip [where a = "toy_getKeyBundle toy_sender"
        and b = "toy_getKeyBundle toy_recipient"])
    (simp_all add: toy_simps)

subsection \<open>What decode does not check\<close>

text \<open>
  C9: of the sender, \<open>decode\<close> checks only that it is present. With any sender bundle
  \<open>hs\<close>, its identity key and pre-key present or not, a message that has its
  recipient pre-key and ciphertext payload, decoded with a local bundle whose current
  pre-key matches, passes all checks: the first thing \<open>decode\<close> does is to derive the
  shared secret with the sender built from \<open>hs\<close>, and an error it then returns is the
  error of that derivation or of the AEAD decrypt.
\<close>

theorem decode_sender_unvalidated:
  assumes "proto_Message_decode x bs = Inr m" "header m = Some h" "sender h = Some hs"
    "recipient h = Some hr" "preKey hr = Some hpk" "privPreKey rP = Some rpk"
    "preKeys rP \<noteq> []" "matches x rpk (PublicKey_new x hpk)"
    "ciphertext m = Some wct" "aes256GcmHkdfSha256 wct = Some pl"
  shows "hd (fst (Message_decode x rP bs)) = SharedSecret rP (KeyBundle_new x hs) True \<and>
    fst (Message_decode x rP bs) \<noteq> [] \<and>
    (\<forall>e. snd (Message_decode x rP bs) = Inl e \<longrightarrow>
       sharedSecret x rP (KeyBundle_new x hs) True = Inl e \<or>
       (\<exists>sec. sharedSecret x rP (KeyBundle_new x hs) True = Inr sec \<and>
          decrypt x (Ciphertext_new x wct) sec
            (associatedData x \<lparr>ad_sender = KeyBundle_new x hs, ad_recipient = getKeyBundle x rP\<rparr>) =
          Inl e))"
  unfolding decode_validated [OF assms]
  by (auto simp: Message_decrypt_def io_simps split: sum.splits)

theorem decode_sender_unvalidated_witness:
  "hd (fst (Message_decode toy toy_recipient [8])) =
     SharedSecret toy_recipient \<lparr>identityKey = None, preKey = None\<rparr> True \<and>
   fst (Message_decode toy toy_recipient [8]) \<noteq> [] \<and>
   sharedSecret toy toy_recipient \<lparr>identityKey = None, preKey = None\<rparr> True =
     Inl (Error ''missing key'')"
proof -
  have "hd (fst (Message_decode toy toy_recipient [8])) =
     SharedSecret toy_recipient (KeyBundle_new toy \<lparr>identityKey = None, preKey = None\<rparr>) True \<and>
   fst (Message_decode toy toy_recipient [8]) \<noteq> [] \<and>
   (\<forall>e. snd (Message_decode toy toy_recipient [8]) = Inl e \<longrightarrow>
       sharedSecret toy toy_recipient
         (KeyBundle_new toy \<lparr>identityKey = None, preKey = None\<rparr>) True = Inl e \<or>
       (\<exists>sec. sharedSecret toy toy_recipient
            (KeyBundle_new toy \<lparr>identityKey = None, preKey = None\<rparr>) True = Inr sec \<and>
          decrypt toy (Ciphertext_new toy (toy_ciphertext [0x68, 0x69])) sec
            (associatedData toy
               \<lparr>ad_sender = KeyBundle_new toy \<lparr>identityKey = None, preKey = None\<rparr>,
                ad_recipient = getKeyBundle toy toy_recipient\<rparr>) =
          Inl e))"
    by (rule decode_sender_unvalidated [OF toy_wire_8,
          where h = "toy_header\<lparr>sender := Some \<lparr>identityKey = None, preKey = None\<rparr>\<rparr>"
            and hr = "toy_getKeyBundle toy_recipient" and hpk = 7 and rpk = 7
            and pl = "([2, 3, 5, 7], [1], [0x68, 0x69])"])
      (simp_all add: toy_simps)
  moreover have "sharedSecret toy toy_recipient \<lparr>identityKey = None, preKey = None\<rparr> True =
     Inl (Error ''missing key'')"
    by (simp add: toy_simps)
  ultimately show ?thesis
    by (simp add: toy_constructors)
qed

text \<open>
  C10: the comparison of step 6 reads the pre-key of \<open>header.recipient\<close> only. With
  any recipient bundle \<open>hr\<close> in the wire header whose pre-key matches the local current
  pre-key, whatever its identity key, \<open>decode\<close> derives the shared secret and, when
  that succeeds, invokes the AEAD decrypt, with associated data built from the local
  bundle's own key bundle.
\<close>

theorem decode_identity_unchecked:
  assumes "proto_Message_decode x bs = Inr m" "header m = Some h" "sender h = Some hs"
    "recipient h = Some hr" "preKey hr = Some hpk" "privPreKey rP = Some rpk"
    "preKeys rP \<noteq> []" "matches x rpk (PublicKey_new x hpk)"
    "ciphertext m = Some wct" "aes256GcmHkdfSha256 wct = Some pl"
  shows "fst (Message_decode x rP bs) =
    SharedSecret rP (KeyBundle_new x hs) True #
    (case sharedSecret x rP (KeyBundle_new x hs) True of
       Inl e \<Rightarrow> []
     | Inr sec \<Rightarrow>
         [Decrypt (Ciphertext_new x wct) sec
            (associatedData x
               \<lparr>ad_sender = KeyBundle_new x hs, ad_recipient = getKeyBundle x rP\<rparr>)])"
  unfolding decode_validated [OF assms]
  by (auto simp: Message_decrypt_def io_simps split: sum.splits)

theorem decode_identity_unchecked_witness:
  "identityKey \<lparr>identityKey = Some 99, preKey = Some (7::nat)\<rparr> \<noteq>
     identityKey (getKeyBundle toy toy_recipient) \<and>
   fst (Message_decode toy toy_recipient [9]) =
     [SharedSecret toy_recipient (toy_getKeyBundle toy_sender) True,
      Decrypt (toy_ciphertext [0x68, 0x69]) [2, 3, 5, 7] [1]]"
proof -
  have "fst (Message_decode toy toy_recipient [9]) =
    SharedSecret toy_recipient (KeyBundle_new toy (toy_getKeyBundle toy_sender)) True #
    (case sharedSecret toy toy_recipient (KeyBundle_new toy (toy_getKeyBundle toy_sender)) True of
       Inl e \<Rightarrow> []
     | Inr sec \<Rightarrow>
         [Decrypt (Ciphertext_new toy (toy_ciphertext [0x68, 0x69])) sec
            (associatedData toy
               \<lparr>ad_sender = KeyBundle_new toy (toy_getKeyBundle toy_sender),
                ad_recipient = getKeyBundle toy toy_recipient\<rparr>)])"
    by (rule decode_identity_unchecked [OF toy_wire_9,
          where h = "toy_header\<lparr>recipient := Some \<lparr>identityKey = Some 99, preKey = Some 7\<rparr>\<rparr>"
            and hr = "\<lparr>identityKey = Some 99, preKey = Some 7\<rparr>" and hpk = 7 and rpk = 7
            and pl = "([2, 3, 5, 7], [1], [0x68, 0x69])"])
      (simp_all add: toy_simps)
  then show ?thesis
    by (simp add: associatedData_def toy_simps)
qed

end
